theory Spec2Isabelle
  imports Complex_Main "HOL-Library.Log_Nat" "HOL-Library.Word"
begin

section \<open>The Animals API: request handlers over a document store\<close>

text \<open>
  The program is an Express application (\<^verbatim>\<open>app.js\<close>) with five routes over one Mongoose
  model, \<^verbatim>\<open>animalModel\<close>, built from the schema of \<^verbatim>\<open>animalsData.js\<close>. Every route has the
  same shape: one awaited call of the model inside \<^verbatim>\<open>try\<close>, a test of the result for
  null where the call can yield null, and a \<^verbatim>\<open>catch\<close> that answers with a status and a
  JSON body. The handlers are embedded as functions from the outcome of the awaited call
  to the response; the model's calls are embedded as functions on the collection.
\<close>

subsection \<open>Numbers\<close>

text \<open>
  A JavaScript number is an IEEE 754 double. It is modelled by the rational it denotes,
  or one of the two infinities (negative zero is not told from zero; a JSON text has no
  NaN). \<^verbatim>\<open>express.json()\<close> reads a number of the request's JSON text, a decimal
  fraction with an optional exponent and so a rational, as the nearest double, ties to
  the even significand: 53 significant bits, the least exponent of a normal number
  \<open>-1022\<close>, infinity from \<open>2 ^ 1024\<close>. \<^verbatim>\<open>res.json\<close> writes an infinity as \<^verbatim>\<open>null\<close>.
\<close>

datatype number = Finite rat | PosInfinity | NegInfinity

text \<open>The exponent \<open>e\<close> of a positive rational: \<open>2 ^ e \<le> x < 2 ^ (e + 1)\<close>.\<close>

definition floor_log2 :: "rat \<Rightarrow> int" where
  "floor_log2 x =
     (case quotient_of x of (n, d) \<Rightarrow>
        (let k = bitlen n - bitlen d in if power_int 2 k \<le> x then k else k - 1))"

definition roundTiesToEven :: "rat \<Rightarrow> int" where
  "roundTiesToEven x =
     (let f = \<lfloor>x\<rfloor>; r = x - of_int f in
      if r < 1 / 2 then f else if 1 / 2 < r then f + 1 else if even f then f else f + 1)"

text \<open>The double nearest to a positive rational, \<open>2 ^ 1024\<close> standing for overflow.\<close>

definition binary64 :: "rat \<Rightarrow> rat" where
  "binary64 x =
     (let e = max (floor_log2 x) (- 1022); ulp = power_int 2 (e - 52) in
      of_int (roundTiesToEven (x / ulp)) * ulp)"

definition JSON_number :: "rat \<Rightarrow> number" where
  "JSON_number x =
     (if x = 0 then Finite 0
      else if 0 < x then (if binary64 x < 2 ^ 1024 then Finite (binary64 x) else PosInfinity)
      else (if binary64 (- x) < 2 ^ 1024 then Finite (- binary64 (- x)) else NegInfinity))"

subsection \<open>Documents and the schema\<close>

text \<open>
  \<^verbatim>\<open>animalsSchema\<close> declares three paths: \<^verbatim>\<open>name\<close> and \<^verbatim>\<open>species\<close> of type String and
  \<^verbatim>\<open>age\<close> of type Number, each with \<^verbatim>\<open>required: true\<close>. A stored document carries these
  and the identifier \<^verbatim>\<open>_id\<close> (here \<open>oid\<close>); the version key \<^verbatim>\<open>__v\<close>, which no route
  changes, is left out.
\<close>

record 'oid animal =
  oid :: 'oid
  name :: string
  species :: string
  age :: number

type_synonym 'oid collection = "'oid animal list"

text \<open>
  The request body \<^verbatim>\<open>req.body\<close>, as far as it is a JSON object read at the three paths of
  the schema. For each path the body either has no such key, or the schema type's cast
  of the value there yields null (as for JSON \<^verbatim>\<open>null\<close>), throws (as for an array, or for
  \<^verbatim>\<open>"abc"\<close> at a Number path), or yields a value of the path's type. So the JSON text
  \<^verbatim>\<open>{"name": "Lion", "age": 2.5}\<close> is
  \<open>\<lparr>body_name = Value ''Lion'', body_species = Missing, body_age = Value (JSON_number (5/2))\<rparr>\<close>.
  Keys outside the schema are dropped by the model. What this type does not express is
  outside the embedding: a body that is a JSON array (which \<^verbatim>\<open>create\<close> takes as a batch
  of documents), and a body with the keys \<^verbatim>\<open>_id\<close> or \<^verbatim>\<open>__v\<close> or with update operators
  (keys that start with \<^verbatim>\<open>$\<close>), which \<^verbatim>\<open>create\<close> and \<^verbatim>\<open>findByIdAndUpdate\<close> do not drop.
\<close>

datatype 'a given = Missing | Null | Uncastable | Value 'a

record body =
  body_name :: "string given"
  body_species :: "string given"
  body_age :: "number given"

subsection \<open>Errors, promises and responses\<close>

datatype failure = Required | Cast

datatype error =
    ValidationError "(string \<times> failure) list"
  | CastError string
  | DuplicateKey
  | StoreFailure string

text \<open>The outcome of an awaited call: the value it resolves to, or the error it throws.\<close>

datatype 'a promise = Resolved 'a | Rejected error

text \<open>
  The text of a JSON body \<^verbatim>\<open>{error: ...}\<close>: a string literal of the handler, or the
  \<^verbatim>\<open>message\<close> property of the error that was caught.
\<close>

datatype message = Text string | Message_of error

datatype 'oid json =
    Json_doc "'oid animal"
  | Json_docs "'oid animal list"
  | Json_error message
  | No_body

record 'oid response =
  status :: nat
  body :: "'oid json"

subsection \<open>The five handlers\<close>

text \<open>\<^verbatim>\<open>app.post("/animals")\<close>: 201 with the created document, 400 with the error's message.\<close>

definition post_animals_res :: "'oid animal promise \<Rightarrow> 'oid response" where
  "post_animals_res r =
     (case r of
        Resolved newAnimal \<Rightarrow> \<lparr>status = 201, body = Json_doc newAnimal\<rparr>
      | Rejected e \<Rightarrow> \<lparr>status = 400, body = Json_error (Message_of e)\<rparr>)"

text \<open>\<^verbatim>\<open>app.get("/animals")\<close>: 200 with the array, 500 with the error's message.\<close>

definition get_animals_res :: "'oid animal list promise \<Rightarrow> 'oid response" where
  "get_animals_res r =
     (case r of
        Resolved animals \<Rightarrow> \<lparr>status = 200, body = Json_docs animals\<rparr>
      | Rejected e \<Rightarrow> \<lparr>status = 500, body = Json_error (Message_of e)\<rparr>)"

text \<open>\<^verbatim>\<open>app.get("/animals/:id")\<close>: null is 404, a document is 200, any error is 400 with a
  fixed text.\<close>

definition get_animals_id_res :: "'oid animal option promise \<Rightarrow> 'oid response" where
  "get_animals_id_res r =
     (case r of
        Resolved None \<Rightarrow> \<lparr>status = 404, body = Json_error (Text ''Animal not found'')\<rparr>
      | Resolved (Some animal) \<Rightarrow> \<lparr>status = 200, body = Json_doc animal\<rparr>
      | Rejected e \<Rightarrow> \<lparr>status = 400, body = Json_error (Text ''Invalid ID format'')\<rparr>)"

text \<open>\<^verbatim>\<open>app.put("/animals/:id")\<close>: null is 404, a document is 200, an error is 400 with its
  message.\<close>

definition put_animals_id_res :: "'oid animal option promise \<Rightarrow> 'oid response" where
  "put_animals_id_res r =
     (case r of
        Resolved None \<Rightarrow> \<lparr>status = 404, body = Json_error (Text ''Animal not found'')\<rparr>
      | Resolved (Some updatedAnimal) \<Rightarrow> \<lparr>status = 200, body = Json_doc updatedAnimal\<rparr>
      | Rejected e \<Rightarrow> \<lparr>status = 400, body = Json_error (Message_of e)\<rparr>)"

text \<open>\<^verbatim>\<open>app.delete("/animals/:id")\<close>: null is 404, a document is 204 with no body, any
  error is 400 with a fixed text.\<close>

definition delete_animals_id_res :: "'oid animal option promise \<Rightarrow> 'oid response" where
  "delete_animals_id_res r =
     (case r of
        Resolved None \<Rightarrow> \<lparr>status = 404, body = Json_error (Text ''Animal not found'')\<rparr>
      | Resolved (Some deletedAnimal) \<Rightarrow> \<lparr>status = 204, body = No_body\<rparr>
      | Rejected e \<Rightarrow> \<lparr>status = 400, body = Json_error (Text ''Invalid ID format'')\<rparr>)"

subsection \<open>The model's calls\<close>

text \<open>
  \<^verbatim>\<open>animalModel\<close> is the Mongoose model of \<^verbatim>\<open>animalsSchema\<close>; Mongoose and the database
  behind it are libraries the program calls, and their calls are embedded here as far as
  the handlers use them. The collection is the list of stored documents in insertion
  order; the database keeps \<^verbatim>\<open>_id\<close> unique (\<open>distinct (map oid db)\<close>). Three things come
  from outside the program and are arguments of the calls below:
  \<^item> \<open>castObjectId\<close>, the identifier syntax of the store: the cast of the path parameter
    \<^verbatim>\<open>req.params.id\<close> to an identifier, \<open>None\<close> where the string is no identifier;
  \<^item> \<open>fault\<close>, whether the database fails on this call (\<open>Some m\<close>: the driver throws an
    error with message \<open>m\<close>), after Mongoose's own casts and validators have passed;
  \<^item> \<open>newId\<close>, the identifier generated for a new document.
\<close>

text \<open>The \<^verbatim>\<open>required\<close> validator of a String path wants a non-empty string, that of a
  Number path a number. A cast that throws is reported for its path.\<close>

fun validate_String :: "string \<Rightarrow> string given \<Rightarrow> (string \<times> failure) list + string" where
  "validate_String p Missing = Inl [(p, Required)]"
| "validate_String p Null = Inl [(p, Required)]"
| "validate_String p Uncastable = Inl [(p, Cast)]"
| "validate_String p (Value s) = (if s = [] then Inl [(p, Required)] else Inr s)"

fun validate_Number :: "string \<Rightarrow> number given \<Rightarrow> (string \<times> failure) list + number" where
  "validate_Number p Missing = Inl [(p, Required)]"
| "validate_Number p Null = Inl [(p, Required)]"
| "validate_Number p Uncastable = Inl [(p, Cast)]"
| "validate_Number p (Value n) = Inr n"

fun errors_of :: "(string \<times> failure) list + 'a \<Rightarrow> (string \<times> failure) list" where
  "errors_of (Inl es) = es"
| "errors_of (Inr v) = []"

text \<open>Validation of a new document built from the body: every path of the schema is
  checked, all three being required; the document is built when no path fails.\<close>

definition validate :: "'oid \<Rightarrow> body \<Rightarrow> error + 'oid animal" where
  "validate k b =
     (case (validate_String ''name'' (body_name b),
            validate_String ''species'' (body_species b),
            validate_Number ''age'' (body_age b)) of
        (Inr n, Inr s, Inr a) \<Rightarrow> Inr \<lparr>oid = k, name = n, species = s, age = a\<rparr>
      | (n, s, a) \<Rightarrow> Inl (ValidationError (errors_of n @ errors_of s @ errors_of a)))"

text \<open>\<^verbatim>\<open>animalModel.create(req.body)\<close>: validate, then insert.\<close>

definition animalModel_create ::
  "string option \<Rightarrow> 'oid \<Rightarrow> body \<Rightarrow> 'oid collection \<Rightarrow> 'oid animal promise \<times> 'oid collection" where
  "animalModel_create fault newId b db =
     (case validate newId b of
        Inl e \<Rightarrow> (Rejected e, db)
      | Inr newAnimal \<Rightarrow>
          (case fault of
             Some m \<Rightarrow> (Rejected (StoreFailure m), db)
           | None \<Rightarrow>
               if newId \<in> set (map oid db) then (Rejected DuplicateKey, db)
               else (Resolved newAnimal, db @ [newAnimal])))"

text \<open>\<^verbatim>\<open>animalModel.find()\<close>: all documents.\<close>

definition animalModel_find :: "string option \<Rightarrow> 'oid collection \<Rightarrow> 'oid animal list promise" where
  "animalModel_find fault db =
     (case fault of Some m \<Rightarrow> Rejected (StoreFailure m) | None \<Rightarrow> Resolved db)"

fun findOne :: "'oid \<Rightarrow> 'oid collection \<Rightarrow> 'oid animal option" where
  "findOne k [] = None"
| "findOne k (d # ds) = (if oid d = k then Some d else findOne k ds)"

fun deleteOne :: "'oid \<Rightarrow> 'oid collection \<Rightarrow> 'oid collection" where
  "deleteOne k [] = []"
| "deleteOne k (d # ds) = (if oid d = k then ds else d # deleteOne k ds)"

fun replaceOne :: "'oid \<Rightarrow> 'oid animal \<Rightarrow> 'oid collection \<Rightarrow> 'oid collection" where
  "replaceOne k d' [] = []"
| "replaceOne k d' (d # ds) = (if oid d = k then d' # ds else d # replaceOne k d' ds)"

text \<open>\<^verbatim>\<open>animalModel.findById(req.params.id)\<close>: cast the identifier, then look it up.\<close>

definition animalModel_findById ::
  "(string \<Rightarrow> 'oid option) \<Rightarrow> string option \<Rightarrow> string \<Rightarrow> 'oid collection \<Rightarrow> 'oid animal option promise" where
  "animalModel_findById castObjectId fault id' db =
     (case castObjectId id' of
        None \<Rightarrow> Rejected (CastError ''_id'')
      | Some k \<Rightarrow>
          (case fault of
             Some m \<Rightarrow> Rejected (StoreFailure m)
           | None \<Rightarrow> Resolved (findOne k db)))"

text \<open>
  \<^verbatim>\<open>animalModel.findByIdAndUpdate(req.params.id, req.body, {new: true, runValidators: true})\<close>.
  An update object without operators is a \<^verbatim>\<open>$set\<close> of the keys it has. The keys are cast
  by their schema types (a cast that throws rejects the call); with \<^verbatim>\<open>runValidators\<close> the
  validators of the paths that are set run on the values set; \<^verbatim>\<open>new: true\<close> resolves to
  the document as it is after the update.
\<close>

fun castUpdate_path :: "string \<Rightarrow> 'a given \<Rightarrow> error list" where
  "castUpdate_path p Uncastable = [CastError p]"
| "castUpdate_path p v = []"

definition castUpdate :: "body \<Rightarrow> error list" where
  "castUpdate b =
     castUpdate_path ''name'' (body_name b) @ castUpdate_path ''species'' (body_species b)
       @ castUpdate_path ''age'' (body_age b)"

fun updateValidators_String :: "string \<Rightarrow> string given \<Rightarrow> (string \<times> failure) list" where
  "updateValidators_String p Missing = []"
| "updateValidators_String p v = errors_of (validate_String p v)"

fun updateValidators_Number :: "string \<Rightarrow> number given \<Rightarrow> (string \<times> failure) list" where
  "updateValidators_Number p Missing = []"
| "updateValidators_Number p v = errors_of (validate_Number p v)"

definition updateValidators :: "body \<Rightarrow> (string \<times> failure) list" where
  "updateValidators b =
     updateValidators_String ''name'' (body_name b)
       @ updateValidators_String ''species'' (body_species b)
       @ updateValidators_Number ''age'' (body_age b)"

fun set_path :: "'a given \<Rightarrow> 'a \<Rightarrow> 'a" where
  "set_path (Value v) old = v"
| "set_path g old = old"

definition applyUpdate :: "body \<Rightarrow> 'oid animal \<Rightarrow> 'oid animal" where
  "applyUpdate b d =
     \<lparr>oid = oid d,
      name = set_path (body_name b) (name d),
      species = set_path (body_species b) (species d),
      age = set_path (body_age b) (age d)\<rparr>"

definition animalModel_findByIdAndUpdate ::
  "(string \<Rightarrow> 'oid option) \<Rightarrow> string option \<Rightarrow> string \<Rightarrow> body \<Rightarrow> 'oid collection
     \<Rightarrow> 'oid animal option promise \<times> 'oid collection" where
  "animalModel_findByIdAndUpdate castObjectId fault id' b db =
     (case castObjectId id' of
        None \<Rightarrow> (Rejected (CastError ''_id''), db)
      | Some k \<Rightarrow>
          (case castUpdate b of
             e # es \<Rightarrow> (Rejected e, db)
           | [] \<Rightarrow>
               (case updateValidators b of
                  v # vs \<Rightarrow> (Rejected (ValidationError (v # vs)), db)
                | [] \<Rightarrow>
                    (case fault of
                       Some m \<Rightarrow> (Rejected (StoreFailure m), db)
                     | None \<Rightarrow>
                         (case findOne k db of
                            None \<Rightarrow> (Resolved None, db)
                          | Some d \<Rightarrow>
                              (Resolved (Some (applyUpdate b d)),
                               replaceOne k (applyUpdate b d) db))))))"

text \<open>\<^verbatim>\<open>animalModel.findByIdAndDelete(req.params.id)\<close>: resolves to the document removed,
  or to null.\<close>

definition animalModel_findByIdAndDelete ::
  "(string \<Rightarrow> 'oid option) \<Rightarrow> string option \<Rightarrow> string \<Rightarrow> 'oid collection
     \<Rightarrow> 'oid animal option promise \<times> 'oid collection" where
  "animalModel_findByIdAndDelete castObjectId fault id' db =
     (case castObjectId id' of
        None \<Rightarrow> (Rejected (CastError ''_id''), db)
      | Some k \<Rightarrow>
          (case fault of
             Some m \<Rightarrow> (Rejected (StoreFailure m), db)
           | None \<Rightarrow> (Resolved (findOne k db), deleteOne k db)))"

subsection \<open>The five operations\<close>

text \<open>Each route awaits its call of the model and answers by its handler; the collection
  after the request is the one the call leaves.\<close>

definition post_animals ::
  "string option \<Rightarrow> 'oid \<Rightarrow> body \<Rightarrow> 'oid collection \<Rightarrow> 'oid response \<times> 'oid collection" where
  "post_animals fault newId b db =
     (case animalModel_create fault newId b db of (r, db') \<Rightarrow> (post_animals_res r, db'))"

definition get_animals :: "string option \<Rightarrow> 'oid collection \<Rightarrow> 'oid response" where
  "get_animals fault db = get_animals_res (animalModel_find fault db)"

definition get_animals_id ::
  "(string \<Rightarrow> 'oid option) \<Rightarrow> string option \<Rightarrow> string \<Rightarrow> 'oid collection \<Rightarrow> 'oid response" where
  "get_animals_id castObjectId fault id' db =
     get_animals_id_res (animalModel_findById castObjectId fault id' db)"

definition put_animals_id ::
  "(string \<Rightarrow> 'oid option) \<Rightarrow> string option \<Rightarrow> string \<Rightarrow> body \<Rightarrow> 'oid collection
     \<Rightarrow> 'oid response \<times> 'oid collection" where
  "put_animals_id castObjectId fault id' b db =
     (case animalModel_findByIdAndUpdate castObjectId fault id' b db of
        (r, db') \<Rightarrow> (put_animals_id_res r, db'))"

definition delete_animals_id ::
  "(string \<Rightarrow> 'oid option) \<Rightarrow> string option \<Rightarrow> string \<Rightarrow> 'oid collection
     \<Rightarrow> 'oid response \<times> 'oid collection" where
  "delete_animals_id castObjectId fault id' db =
     (case animalModel_findByIdAndDelete castObjectId fault id' db of
        (r, db') \<Rightarrow> (delete_animals_id_res r, db'))"

subsection \<open>An identifier syntax\<close>

text \<open>
  The identifier syntax of the store is an argument of the calls above. The reference
  store's identifiers are twelve bytes, written as 24 hexadecimal digits and read
  without regard to case; \<open>objectId\<close> is this instance and \<open>toHexString\<close> the text a
  response carries for an identifier.
\<close>

definition hexDigit :: "char \<Rightarrow> nat option" where
  "hexDigit c =
     (let n = (of_char c :: nat) in
      if 48 \<le> n \<and> n \<le> 57 then Some (n - 48)
      else if 97 \<le> n \<and> n \<le> 102 then Some (n - 87)
      else if 65 \<le> n \<and> n \<le> 70 then Some (n - 55)
      else None)"

fun fromHex :: "nat \<Rightarrow> string \<Rightarrow> nat option" where
  "fromHex acc [] = Some acc"
| "fromHex acc (c # cs) =
     (case hexDigit c of None \<Rightarrow> None | Some d \<Rightarrow> fromHex (16 * acc + d) cs)"

definition objectId :: "string \<Rightarrow> 96 word option" where
  "objectId s = (if length s = 24 then map_option of_nat (fromHex 0 s) else None)"

definition hexChar :: "nat \<Rightarrow> char" where
  "hexChar d = ''0123456789abcdef'' ! d"

definition toHexString :: "96 word \<Rightarrow> string" where
  "toHexString w = map (\<lambda>i. hexChar (unat w div 16 ^ i mod 16)) (rev [0..<24])"

subsection \<open>Start-up\<close>

text \<open>
  The script of \<^verbatim>\<open>app.js\<close> calls \<^verbatim>\<open>conectDB()\<close> and then \<^verbatim>\<open>app.listen(PORT, ...)\<close>.
  \<^verbatim>\<open>conectDB\<close> is an \<^verbatim>\<open>async\<close> function and its call is not awaited: the call runs the
  body up to its \<^verbatim>\<open>await\<close>, that is, it calls \<^verbatim>\<open>mongoose.connect\<close>, and returns; the rest
  of the body runs when the connection attempt has settled, which is after the script has
  run to its end and after the callback of \<^verbatim>\<open>app.listen\<close> has logged that the server
  listens. The start-up is embedded as the sequence of its effects; a console call is
  recorded with its arguments.
\<close>

datatype event =
    Connect
  | Listen nat
  | Console_log "string list"
  | Console_error "string list"
  | Exit nat

datatype connection = Connected | Failed string

definition PORT :: nat where
  "PORT = 3000"

fun decimal :: "nat \<Rightarrow> string" where
  "decimal n = (if n < 10 then [hexChar n] else decimal (n div 10) @ [hexChar (n mod 10)])"

definition conectDB_call :: "event list" where
  "conectDB_call = [Connect]"

definition conectDB_resume :: "connection \<Rightarrow> event list" where
  "conectDB_resume c =
     (case c of
        Connected \<Rightarrow> [Console_log [''Connected to MongoDB'']]
      | Failed m \<Rightarrow> [Console_error [''Error connecting to MongoDB:'', m], Exit 1])"

definition listen_callback :: "event list" where
  "listen_callback = [Console_log [''Server listening on port '' @ decimal PORT]]"

definition boot :: "connection \<Rightarrow> event list" where
  "boot c = conectDB_call @ [Listen PORT] @ listen_callback @ conectDB_resume c"

section \<open>Lemmas on numbers\<close>

lemma roundTiesToEven_of_int: "roundTiesToEven (of_int z) = z"
  by (simp add: roundTiesToEven_def)

lemma floor_log2_of_int:
  assumes "0 < a"
  shows "floor_log2 (of_int a) = bitlen a - 1"
proof -
  have "(2::int) ^ nat (bitlen a - 1) \<le> a"
    using bitlen_bounds [OF assms] by simp
  then have "(of_int ((2::int) ^ nat (bitlen a - 1)) :: rat) \<le> of_int a"
    by (simp only: of_int_le_iff)
  moreover have "0 \<le> bitlen a - 1"
    using assms bitlen_eq_zero_iff [of a] bitlen_nonneg [of a] by linarith
  ultimately have "power_int (2::rat) (bitlen a - 1) \<le> of_int a"
    by (simp add: power_int_def)
  moreover have "bitlen 1 = 1"
    by (subst compute_bitlen) (simp add: bitlen_zero)
  ultimately show ?thesis
    by (simp add: floor_log2_def)
qed

text \<open>An integer of magnitude at most \<open>2 ^ 53\<close> is a double.\<close>

lemma binary64_of_int:
  assumes "0 < a" and "a \<le> 2 ^ 53"
  shows "binary64 (of_int a) = of_int a"
proof -
  define e where "e = bitlen a - 1"
  have e0: "0 \<le> e"
    unfolding e_def using assms(1) bitlen_eq_zero_iff [of a] bitlen_nonneg [of a] by linarith
  have "a < 2 ^ nat 54" using assms(2) by simp
  then have e53: "e \<le> 53"
    unfolding e_def using bitlen_le_iff_power [of a 54] by simp
  have ex: "\<exists>z. (of_int a :: rat) / power_int 2 (e - 52) = of_int z"
  proof (cases "e \<le> 52")
    case True
    then have "e - 52 = - int (nat (52 - e))" by simp
    then have "power_int (2::rat) (e - 52) = power_int 2 (- int (nat (52 - e)))" by simp
    also have "\<dots> = inverse (2 ^ nat (52 - e))"
      by (simp only: power_int_minus power_int_of_nat)
    finally have "(of_int a :: rat) / power_int 2 (e - 52) = of_int (a * 2 ^ nat (52 - e))"
      by (simp add: divide_inverse)
    then show ?thesis by blast
  next
    case False
    with e53 have e: "e = 53" by linarith
    then have "2 ^ nat 53 \<le> a"
      using bitlen_bounds [OF assms(1)] by (simp add: e_def)
    with assms(2) have a: "a = 2 ^ 53" by simp
    have "(of_int a :: rat) / power_int 2 (e - 52) = of_int (2 ^ 52)"
      unfolding e by (simp add: a)
    then show ?thesis by blast
  qed
  then obtain z where z: "(of_int a :: rat) / power_int 2 (e - 52) = of_int z" ..
  have nz: "power_int (2::rat) (e - 52) \<noteq> 0" by simp
  have "floor_log2 (of_int a) = e"
    unfolding e_def using assms(1) by (rule floor_log2_of_int)
  then have "max (floor_log2 (of_int a)) (- 1022) = e"
    using e0 by simp
  then have "binary64 (of_int a) = of_int (roundTiesToEven (of_int a / power_int 2 (e - 52)))
      * power_int 2 (e - 52)"
    by (simp only: binary64_def Let_def)
  also have "\<dots> = of_int z * power_int 2 (e - 52)"
    by (simp only: z roundTiesToEven_of_int)
  also have "\<dots> = of_int a"
    using z nz by (simp add: field_simps)
  finally show ?thesis .
qed

lemma JSON_number_safe_integer:
  assumes "\<bar>a\<bar> \<le> 2 ^ 53"
  shows "JSON_number (of_int a) = Finite (of_int a)"
proof -
  have small: "(of_int b :: rat) < 2 ^ 1024" if "b \<le> 2 ^ 53" for b :: int
  proof -
    have "b < 2 ^ 1024" using that by (rule order_le_less_trans) simp
    then have "(of_int b :: rat) < of_int (2 ^ 1024)" by (simp only: of_int_less_iff)
    then show ?thesis by simp
  qed
  consider "a = 0" | "0 < a" | "a < 0" by linarith
  then show ?thesis
  proof cases
    case 1
    then show ?thesis by (simp add: JSON_number_def)
  next
    case 2
    with assms have "a \<le> 2 ^ 53" by simp
    with 2 show ?thesis
      by (simp add: JSON_number_def binary64_of_int small)
  next
    case 3
    with assms have le: "- a \<le> 2 ^ 53" by simp
    from 3 have pos: "0 < - a" by simp
    have "binary64 (of_int (- a)) = of_int (- a)"
      using pos le by (rule binary64_of_int)
    then have b: "binary64 (- of_int a) = - of_int a" by simp
    have "(of_int (- a) :: rat) < 2 ^ 1024" using le by (rule small)
    then have "- (of_int a :: rat) < 2 ^ 1024" by simp
    with 3 b show ?thesis
      by (simp add: JSON_number_def)
  qed
qed

lemma JSON_number_halves: "JSON_number (5 / 2) = Finite (5 / 2)"
  by code_simp

lemma JSON_number_above_2_53: "JSON_number 9007199254740993 = Finite 9007199254740992"
  by code_simp

section \<open>Lemmas on identifiers\<close>

lemma hexDigit_hexChar: "d < 16 \<Longrightarrow> hexDigit (hexChar d) = Some d"
proof -
  assume "d < 16"
  then have "d \<in> set [0..<16]" by simp
  also have "[0..<16] = [0, 1, 2, 3, 4, 5, 6, 7, 8, 9, 10, 11, 12, 13, 14, 15 :: nat]"
    by (simp add: upt_conv_Cons)
  finally have "d = 0 \<or> d = 1 \<or> d = 2 \<or> d = 3 \<or> d = 4 \<or> d = 5 \<or> d = 6 \<or> d = 7 \<or> d = 8
      \<or> d = 9 \<or> d = 10 \<or> d = 11 \<or> d = 12 \<or> d = 13 \<or> d = 14 \<or> d = 15"
    by simp
  then show ?thesis
    by (elim disjE) (simp_all add: hexChar_def hexDigit_def)
qed

lemma fromHex_map_hexChar:
  "\<forall>d \<in> set ds. d < 16 \<Longrightarrow>
     fromHex acc (map hexChar ds) = Some (foldl (\<lambda>a d. 16 * a + d) acc ds)"
  by (induction ds arbitrary: acc) (simp_all add: hexDigit_hexChar)

lemma horner_digits:
  "foldl (\<lambda>a d. 16 * a + d) acc (map (\<lambda>i. n div 16 ^ i mod 16) (rev [0..<k]))
     = acc * 16 ^ k + (n :: nat) mod 16 ^ k"
proof (induction k arbitrary: acc)
  case 0
  then show ?case by simp
next
  case (Suc k)
  have step: "n mod 16 ^ Suc k = 16 ^ k * (n div 16 ^ k mod 16) + n mod 16 ^ k"
    using mod_mult2_eq [of n "16 ^ k" 16] by (simp add: mult.commute)
  have "foldl (\<lambda>a d. 16 * a + d) acc (map (\<lambda>i. n div 16 ^ i mod 16) (rev [0..<Suc k]))
      = foldl (\<lambda>a d. 16 * a + d) (16 * acc + n div 16 ^ k mod 16)
          (map (\<lambda>i. n div 16 ^ i mod 16) (rev [0..<k]))"
    by simp
  also have "\<dots> = (16 * acc + n div 16 ^ k mod 16) * 16 ^ k + n mod 16 ^ k"
    by (rule Suc.IH)
  also have "\<dots> = acc * 16 ^ Suc k + (16 ^ k * (n div 16 ^ k mod 16) + n mod 16 ^ k)"
    by (simp add: algebra_simps)
  also have "\<dots> = acc * 16 ^ Suc k + n mod 16 ^ Suc k"
    by (simp only: step)
  finally show ?case .
qed

lemma objectId_toHexString: "objectId (toHexString w) = Some w"
proof -
  have "unat w < 2 ^ 96" using unsigned_less [of w] by simp
  then have small: "unat w mod 16 ^ 24 = unat w" by simp
  have digits: "\<forall>d \<in> set (map (\<lambda>i. unat w div 16 ^ i mod 16) (rev [0..<24])). d < 16"
    by simp
  have "fromHex 0 (toHexString w)
      = Some (foldl (\<lambda>a d. 16 * a + d) 0 (map (\<lambda>i. unat w div 16 ^ i mod 16) (rev [0..<24])))"
    unfolding toHexString_def using fromHex_map_hexChar [OF digits, of 0]
    by (simp only: map_map comp_def)
  also have "\<dots> = Some (unat w)"
    by (simp only: horner_digits small) simp
  finally have "fromHex 0 (toHexString w) = Some (unat w)" .
  moreover have "length (toHexString w) = 24"
    by (simp add: toHexString_def)
  ultimately show ?thesis
    by (simp add: objectId_def)
qed

section \<open>Lemmas on the collection\<close>

lemma findOne_oid: "findOne k db = Some d \<Longrightarrow> oid d = k"
  by (induction db) (auto split: if_splits)

lemma findOne_None_iff: "findOne k db = None \<longleftrightarrow> k \<notin> set (map oid db)"
  by (induction db) auto

lemma findOne_append_fresh:
  "k \<notin> set (map oid db) \<Longrightarrow> findOne k (db @ [d]) = (if oid d = k then Some d else None)"
  by (induction db) auto

lemma set_deleteOne_subset: "set (map oid (deleteOne k db)) \<subseteq> set (map oid db)"
  by (induction db) auto

lemma distinct_deleteOne: "distinct (map oid db) \<Longrightarrow> distinct (map oid (deleteOne k db))"
proof (induction db)
  case Nil
  then show ?case by simp
next
  case (Cons d ds)
  then show ?case using set_deleteOne_subset [of k ds] by auto
qed

lemma findOne_deleteOne: "distinct (map oid db) \<Longrightarrow> findOne k (deleteOne k db) = None"
  by (induction db) (auto simp: findOne_None_iff)

lemma deleteOne_absent: "findOne k db = None \<Longrightarrow> deleteOne k db = db"
  by (induction db) (auto split: if_splits)

lemma findOne_deleteOne_other: "k' \<noteq> k \<Longrightarrow> findOne k' (deleteOne k db) = findOne k' db"
  by (induction db) auto

lemma findOne_replaceOne:
  "findOne k db = Some d \<Longrightarrow> oid d' = k \<Longrightarrow> findOne k (replaceOne k d' db) = Some d'"
  by (induction db) (auto split: if_splits)

lemma findOne_replaceOne_other:
  "oid d' = k \<Longrightarrow> k' \<noteq> k \<Longrightarrow> findOne k' (replaceOne k d' db) = findOne k' db"
  by (induction db) auto

lemma replaceOne_same: "findOne k db = Some d \<Longrightarrow> replaceOne k d db = db"
  by (induction db) (auto split: if_splits)

lemma map_oid_replaceOne: "oid d' = k \<Longrightarrow> map oid (replaceOne k d' db) = map oid db"
  by (induction db) auto

lemma oid_applyUpdate: "oid (applyUpdate b d) = oid d"
  by (simp add: applyUpdate_def)

lemma castUpdate_Nil_iff:
  "castUpdate b = [] \<longleftrightarrow>
     body_name b \<noteq> Uncastable \<and> body_species b \<noteq> Uncastable \<and> body_age b \<noteq> Uncastable"
  by (cases "body_name b"; cases "body_species b"; cases "body_age b")
     (simp_all add: castUpdate_def)

lemma updateValidators_String_path: "(q, f) \<in> set (updateValidators_String p g) \<Longrightarrow> q = p \<and> g \<noteq> Missing"
  by (cases g) (auto split: if_splits)

lemma updateValidators_Number_path: "(q, f) \<in> set (updateValidators_Number p g) \<Longrightarrow> q = p \<and> g \<noteq> Missing"
  by (cases g) (auto split: if_splits)

lemma create_keeps_ids_unique:
  "distinct (map oid db) \<Longrightarrow> distinct (map oid (snd (post_animals fault newId b db)))"
  by (auto simp: post_animals_def animalModel_create_def validate_def
      split: sum.splits option.splits prod.splits)

lemma update_keeps_ids_unique:
  "distinct (map oid db) \<Longrightarrow>
     distinct (map oid (snd (put_animals_id castObjectId fault i b db)))"
  by (auto simp: put_animals_id_def animalModel_findByIdAndUpdate_def map_oid_replaceOne
      oid_applyUpdate findOne_oid split: option.splits list.splits)

lemma delete_keeps_ids_unique:
  "distinct (map oid db) \<Longrightarrow>
     distinct (map oid (snd (delete_animals_id castObjectId fault i db)))"
  by (auto simp: delete_animals_id_def animalModel_findByIdAndDelete_def distinct_deleteOne
      split: option.splits)

lemma findByIdAndUpdate_found:
  assumes "castObjectId i = Some k" and "findOne k db = Some d"
    and "castUpdate b = []" and "updateValidators b = []"
  shows "animalModel_findByIdAndUpdate castObjectId None i b db =
           (Resolved (Some (applyUpdate b d)), replaceOne k (applyUpdate b d) db)"
  using assms by (simp add: animalModel_findByIdAndUpdate_def)

lemma findByIdAndUpdate_refused:
  assumes "castObjectId i = Some k" and "\<not> (castUpdate b = [] \<and> updateValidators b = [])"
  shows "\<exists>e. animalModel_findByIdAndUpdate castObjectId fault i b db = (Rejected e, db)"
  using assms by (auto simp: animalModel_findByIdAndUpdate_def split: list.splits option.splits)

section \<open>Properties of the handlers\<close>

text \<open>
  C9. Whatever error the call of the model throws, get-by-id and delete answer 400 with
  the fixed body \<^verbatim>\<open>{error: "Invalid ID format"}\<close>, while update answers 400 with the
  message of the error it caught. So on get-by-id and delete an identifier the store
  cannot cast and a failure of the database on a well-formed identifier give the same
  response.
\<close>

theorem catch_fixed_text_on_get_and_delete:
  fixes castObjectId :: "string \<Rightarrow> 'oid option"
  shows
  "get_animals_id_res (Rejected e) =
     (\<lparr>status = 400, body = Json_error (Text ''Invalid ID format'')\<rparr> :: 'oid response)
   \<and> delete_animals_id_res (Rejected e) =
     (\<lparr>status = 400, body = Json_error (Text ''Invalid ID format'')\<rparr> :: 'oid response)
   \<and> put_animals_id_res (Rejected e) =
     (\<lparr>status = 400, body = Json_error (Message_of e)\<rparr> :: 'oid response)
   \<and> (castObjectId bad = None \<and> castObjectId good = Some k \<longrightarrow>
        get_animals_id castObjectId None bad db = get_animals_id castObjectId (Some m) good db
      \<and> fst (delete_animals_id castObjectId None bad db) =
          fst (delete_animals_id castObjectId (Some m) good db))"
  by (simp add: get_animals_id_res_def delete_animals_id_res_def put_animals_id_res_def
      get_animals_id_def delete_animals_id_def animalModel_findById_def
      animalModel_findByIdAndDelete_def)

theorem catch_fixed_text_on_get_and_delete_witness:
  "objectId ''not-an-id'' = None \<and> objectId ''00000000000000000000000a'' = Some 10
   \<and> get_animals_id objectId None ''not-an-id'' [] =
       get_animals_id objectId (Some ''connection lost'') ''00000000000000000000000a'' []
   \<and> fst (delete_animals_id objectId None ''not-an-id'' []) =
       fst (delete_animals_id objectId (Some ''connection lost'') ''00000000000000000000000a'' [])"
  using catch_fixed_text_on_get_and_delete
          [of "StoreFailure ''connection lost''" objectId "''not-an-id''"
              "''00000000000000000000000a''" 10 "[]" "''connection lost''"]
  by (simp add: objectId_def hexDigit_def)

text \<open>
  C8. In each of the five handlers an error thrown by the awaited call is caught and
  answered with a status and a JSON body \<^verbatim>\<open>{error: ...}\<close>, as is a null result with
  404; the only response without a body is the 204 of delete. Every request is answered
  with one of the statuses of its handler, whatever the identifier, the body, the
  collection and the state of the database.
\<close>

theorem errors_caught_and_answered:
  fixes r :: "'oid animal option promise"
    and r1 :: "'oid animal promise"
    and r2 :: "'oid animal list promise"
    and castObjectId :: "string \<Rightarrow> 'oid option"
  shows
  "post_animals_res (Rejected e) =
     (\<lparr>status = 400, body = Json_error (Message_of e)\<rparr> :: 'oid response)
   \<and> get_animals_res (Rejected e) =
     (\<lparr>status = 500, body = Json_error (Message_of e)\<rparr> :: 'oid response)
   \<and> get_animals_id_res (Rejected e) =
     (\<lparr>status = 400, body = Json_error (Text ''Invalid ID format'')\<rparr> :: 'oid response)
   \<and> put_animals_id_res (Rejected e) =
     (\<lparr>status = 400, body = Json_error (Message_of e)\<rparr> :: 'oid response)
   \<and> delete_animals_id_res (Rejected e) =
     (\<lparr>status = 400, body = Json_error (Text ''Invalid ID format'')\<rparr> :: 'oid response)
   \<and> get_animals_id_res (Resolved None) =
     (\<lparr>status = 404, body = Json_error (Text ''Animal not found'')\<rparr> :: 'oid response)
   \<and> put_animals_id_res (Resolved None) =
     (\<lparr>status = 404, body = Json_error (Text ''Animal not found'')\<rparr> :: 'oid response)
   \<and> delete_animals_id_res (Resolved None) =
     (\<lparr>status = 404, body = Json_error (Text ''Animal not found'')\<rparr> :: 'oid response)
   \<and> (body (delete_animals_id_res r) = No_body) = (status (delete_animals_id_res r) = 204)
   \<and> body (post_animals_res r1) \<noteq> No_body
   \<and> body (get_animals_res r2) \<noteq> No_body
   \<and> body (get_animals_id_res r) \<noteq> No_body
   \<and> body (put_animals_id_res r) \<noteq> No_body
   \<and> status (fst (post_animals fault newId b db)) \<in> {201, 400}
   \<and> status (get_animals fault db) \<in> {200, 500}
   \<and> status (get_animals_id castObjectId fault i db) \<in> {200, 404, 400}
   \<and> status (fst (put_animals_id castObjectId fault i b db)) \<in> {200, 404, 400}
   \<and> status (fst (delete_animals_id castObjectId fault i db)) \<in> {204, 404, 400}"
proof -
  have handlers:
    "post_animals_res (Rejected e) =
       (\<lparr>status = 400, body = Json_error (Message_of e)\<rparr> :: 'oid response)
     \<and> get_animals_res (Rejected e) =
       (\<lparr>status = 500, body = Json_error (Message_of e)\<rparr> :: 'oid response)
     \<and> get_animals_id_res (Rejected e) =
       (\<lparr>status = 400, body = Json_error (Text ''Invalid ID format'')\<rparr> :: 'oid response)
     \<and> put_animals_id_res (Rejected e) =
       (\<lparr>status = 400, body = Json_error (Message_of e)\<rparr> :: 'oid response)
     \<and> delete_animals_id_res (Rejected e) =
       (\<lparr>status = 400, body = Json_error (Text ''Invalid ID format'')\<rparr> :: 'oid response)
     \<and> get_animals_id_res (Resolved None) =
       (\<lparr>status = 404, body = Json_error (Text ''Animal not found'')\<rparr> :: 'oid response)
     \<and> put_animals_id_res (Resolved None) =
       (\<lparr>status = 404, body = Json_error (Text ''Animal not found'')\<rparr> :: 'oid response)
     \<and> delete_animals_id_res (Resolved None) =
       (\<lparr>status = 404, body = Json_error (Text ''Animal not found'')\<rparr> :: 'oid response)"
    by (simp add: post_animals_res_def get_animals_res_def get_animals_id_res_def
        put_animals_id_res_def delete_animals_id_res_def)
  have bodies:
    "(body (delete_animals_id_res r) = No_body) = (status (delete_animals_id_res r) = 204)
     \<and> body (post_animals_res r1) \<noteq> No_body
     \<and> body (get_animals_res r2) \<noteq> No_body
     \<and> body (get_animals_id_res r) \<noteq> No_body
     \<and> body (put_animals_id_res r) \<noteq> No_body"
    by (simp add: post_animals_res_def get_animals_res_def get_animals_id_res_def
        put_animals_id_res_def delete_animals_id_res_def split: promise.split option.split)
  have post: "status (post_animals_res r') \<in> {201, 400}" for r' :: "'oid animal promise"
    by (simp add: post_animals_res_def split: promise.split)
  have list: "status (get_animals_res r') \<in> {200, 500}" for r' :: "'oid animal list promise"
    by (simp add: get_animals_res_def split: promise.split)
  have get: "status (get_animals_id_res r') \<in> {200, 404, 400}"
    for r' :: "'oid animal option promise"
    by (simp add: get_animals_id_res_def split: promise.split option.split)
  have put: "status (put_animals_id_res r') \<in> {200, 404, 400}"
    for r' :: "'oid animal option promise"
    by (simp add: put_animals_id_res_def split: promise.split option.split)
  have del: "status (delete_animals_id_res r') \<in> {204, 404, 400}"
    for r' :: "'oid animal option promise"
    by (simp add: delete_animals_id_res_def split: promise.split option.split)
  have statuses:
    "status (fst (post_animals fault newId b db)) \<in> {201, 400}
     \<and> status (get_animals fault db) \<in> {200, 500}
     \<and> status (get_animals_id castObjectId fault i db) \<in> {200, 404, 400}
     \<and> status (fst (put_animals_id castObjectId fault i b db)) \<in> {200, 404, 400}
     \<and> status (fst (delete_animals_id castObjectId fault i db)) \<in> {204, 404, 400}"
    using post list get put del
    by (simp add: post_animals_def get_animals_def get_animals_id_def put_animals_id_def
        delete_animals_id_def split: prod.split)
  from handlers bodies statuses show ?thesis by blast
qed

text \<open>
  C7. List answers 200 with all stored documents (the empty array for the empty
  collection) and 500 with the error's message when the call fails. No other handler
  answers 500: create, get-by-id, update and delete answer 400 to every error, a failure
  of the database included.
\<close>

theorem list_alone_answers_500:
  fixes db :: "'oid collection"
    and r :: "'oid animal option promise"
    and r1 :: "'oid animal promise"
  shows
  "get_animals None db = \<lparr>status = 200, body = Json_docs db\<rparr>
   \<and> get_animals None ([] :: 'oid collection) = \<lparr>status = 200, body = Json_docs []\<rparr>
   \<and> get_animals (Some m) db = \<lparr>status = 500, body = Json_error (Message_of (StoreFailure m))\<rparr>
   \<and> get_animals_res (Rejected e) =
       (\<lparr>status = 500, body = Json_error (Message_of e)\<rparr> :: 'oid response)
   \<and> status (get_animals_id_res (Rejected e) :: 'oid response) = 400
   \<and> status (put_animals_id_res (Rejected e) :: 'oid response) = 400
   \<and> status (delete_animals_id_res (Rejected e) :: 'oid response) = 400
   \<and> status (post_animals_res (Rejected e) :: 'oid response) = 400
   \<and> status (get_animals_id castObjectId (Some m) i db) = 400
   \<and> status (fst (put_animals_id castObjectId (Some m) i b db)) = 400
   \<and> status (fst (delete_animals_id castObjectId (Some m) i db)) = 400
   \<and> status (get_animals_id_res r) \<noteq> 500
   \<and> status (put_animals_id_res r) \<noteq> 500
   \<and> status (delete_animals_id_res r) \<noteq> 500
   \<and> status (post_animals_res r1) \<noteq> 500"
  by (simp add: get_animals_def animalModel_find_def get_animals_res_def
      get_animals_id_res_def put_animals_id_res_def delete_animals_id_res_def
      post_animals_res_def get_animals_id_def put_animals_id_def delete_animals_id_def
      animalModel_findById_def animalModel_findByIdAndUpdate_def
      animalModel_findByIdAndDelete_def
      split: promise.split option.split list.split)

section \<open>Properties of the operations\<close>

text \<open>
  C2. An identifier that the store's syntax does not accept makes get-by-id, update and
  delete answer 400, whatever the collection holds, whatever the body is and whether or
  not the database is reachable: the syntax is decided first. When the call of the model
  resolves to null each of them answers 404; and it does resolve to null for a
  well-formed identifier that no stored document has (for update: when the body passes
  its casts and validators, which run before the lookup).
\<close>

theorem identifier_syntax_first_then_lookup:
  fixes castObjectId :: "string \<Rightarrow> 'oid option"
  shows
  "(castObjectId i = None \<longrightarrow>
      status (get_animals_id castObjectId fault i db) = 400
    \<and> status (fst (put_animals_id castObjectId fault i b db)) = 400
    \<and> status (fst (delete_animals_id castObjectId fault i db)) = 400)
   \<and> (animalModel_findById castObjectId fault i db = Resolved None \<longrightarrow>
        (\<exists>k. castObjectId i = Some k)
      \<and> status (get_animals_id castObjectId fault i db) = 404)
   \<and> (fst (animalModel_findByIdAndUpdate castObjectId fault i b db) = Resolved None \<longrightarrow>
        (\<exists>k. castObjectId i = Some k)
      \<and> status (fst (put_animals_id castObjectId fault i b db)) = 404)
   \<and> (fst (animalModel_findByIdAndDelete castObjectId fault i db) = Resolved None \<longrightarrow>
        (\<exists>k. castObjectId i = Some k)
      \<and> status (fst (delete_animals_id castObjectId fault i db)) = 404)
   \<and> (castObjectId i = Some k \<and> findOne k db = None \<longrightarrow>
        status (get_animals_id castObjectId None i db) = 404
      \<and> status (fst (delete_animals_id castObjectId None i db)) = 404
      \<and> (castUpdate b = [] \<and> updateValidators b = [] \<longrightarrow>
           status (fst (put_animals_id castObjectId None i b db)) = 404))"
proof -
  have malformed: "castObjectId i = None \<longrightarrow>
      status (get_animals_id castObjectId fault i db) = 400
    \<and> status (fst (put_animals_id castObjectId fault i b db)) = 400
    \<and> status (fst (delete_animals_id castObjectId fault i db)) = 400"
    by (simp add: get_animals_id_def put_animals_id_def delete_animals_id_def
        animalModel_findById_def animalModel_findByIdAndUpdate_def
        animalModel_findByIdAndDelete_def get_animals_id_res_def put_animals_id_res_def
        delete_animals_id_res_def)
  have get_null: "animalModel_findById castObjectId fault i db = Resolved None \<longrightarrow>
        (\<exists>k. castObjectId i = Some k)
      \<and> status (get_animals_id castObjectId fault i db) = 404"
    by (auto simp: get_animals_id_def animalModel_findById_def get_animals_id_res_def
        split: option.splits)
  have put_null: "fst (animalModel_findByIdAndUpdate castObjectId fault i b db) = Resolved None \<longrightarrow>
        (\<exists>k. castObjectId i = Some k)
      \<and> status (fst (put_animals_id castObjectId fault i b db)) = 404"
    by (auto simp: put_animals_id_def animalModel_findByIdAndUpdate_def put_animals_id_res_def
        split: option.splits list.splits prod.splits)
  have delete_null: "fst (animalModel_findByIdAndDelete castObjectId fault i db) = Resolved None \<longrightarrow>
        (\<exists>k. castObjectId i = Some k)
      \<and> status (fst (delete_animals_id castObjectId fault i db)) = 404"
    by (auto simp: delete_animals_id_def animalModel_findByIdAndDelete_def
        delete_animals_id_res_def split: option.splits prod.splits)
  have absent: "castObjectId i = Some k \<and> findOne k db = None \<longrightarrow>
        status (get_animals_id castObjectId None i db) = 404
      \<and> status (fst (delete_animals_id castObjectId None i db)) = 404
      \<and> (castUpdate b = [] \<and> updateValidators b = [] \<longrightarrow>
           status (fst (put_animals_id castObjectId None i b db)) = 404)"
    by (simp add: get_animals_id_def put_animals_id_def delete_animals_id_def
        animalModel_findById_def animalModel_findByIdAndUpdate_def
        animalModel_findByIdAndDelete_def get_animals_id_res_def put_animals_id_res_def
        delete_animals_id_res_def)
  from malformed get_null put_null delete_null absent show ?thesis by blast
qed

theorem identifier_syntax_first_then_lookup_witness:
  "objectId ''not-an-id'' = None
   \<and> status (get_animals_id objectId None ''not-an-id''
        [\<lparr>oid = 10, name = ''Lion'', species = ''Mammal'', age = Finite 5\<rparr>]) = 400
   \<and> status (fst (put_animals_id objectId None ''not-an-id''
        \<lparr>body_name = Value ''Tiger'', body_species = Value ''Mammal'', body_age = Value (Finite 4)\<rparr>
        [\<lparr>oid = 10, name = ''Lion'', species = ''Mammal'', age = Finite 5\<rparr>])) = 400
   \<and> status (fst (delete_animals_id objectId None ''not-an-id''
        [\<lparr>oid = 10, name = ''Lion'', species = ''Mammal'', age = Finite 5\<rparr>])) = 400
   \<and> objectId ''00000000000000000000000b'' = Some 11
   \<and> findOne (11 :: 96 word) [\<lparr>oid = 10, name = ''Lion'', species = ''Mammal'', age = Finite 5\<rparr>] = None
   \<and> animalModel_findById objectId None ''00000000000000000000000b''
        [\<lparr>oid = 10, name = ''Lion'', species = ''Mammal'', age = Finite 5\<rparr>] = Resolved None
   \<and> fst (animalModel_findByIdAndUpdate objectId None ''00000000000000000000000b''
        \<lparr>body_name = Value ''Tiger'', body_species = Value ''Mammal'', body_age = Value (Finite 4)\<rparr>
        [\<lparr>oid = 10, name = ''Lion'', species = ''Mammal'', age = Finite 5\<rparr>]) = Resolved None
   \<and> fst (animalModel_findByIdAndDelete objectId None ''00000000000000000000000b''
        [\<lparr>oid = 10, name = ''Lion'', species = ''Mammal'', age = Finite 5\<rparr>]) = Resolved None
   \<and> status (get_animals_id objectId None ''00000000000000000000000b''
        [\<lparr>oid = 10, name = ''Lion'', species = ''Mammal'', age = Finite 5\<rparr>]) = 404
   \<and> castUpdate \<lparr>body_name = Value ''Tiger'', body_species = Value ''Mammal'', body_age = Value (Finite 4)\<rparr> = []
   \<and> updateValidators
        \<lparr>body_name = Value ''Tiger'', body_species = Value ''Mammal'', body_age = Value (Finite 4)\<rparr> = []
   \<and> status (fst (put_animals_id objectId None ''00000000000000000000000b''
        \<lparr>body_name = Value ''Tiger'', body_species = Value ''Mammal'', body_age = Value (Finite 4)\<rparr>
        [\<lparr>oid = 10, name = ''Lion'', species = ''Mammal'', age = Finite 5\<rparr>])) = 404
   \<and> status (fst (delete_animals_id objectId None ''00000000000000000000000b''
        [\<lparr>oid = 10, name = ''Lion'', species = ''Mammal'', age = Finite 5\<rparr>])) = 404"
  using identifier_syntax_first_then_lookup
          [of objectId "''not-an-id''" None
              "[\<lparr>oid = 10, name = ''Lion'', species = ''Mammal'', age = Finite 5\<rparr>]"
              "\<lparr>body_name = Value ''Tiger'', body_species = Value ''Mammal'', body_age = Value (Finite 4)\<rparr>"
              11]
        identifier_syntax_first_then_lookup
          [of objectId "''00000000000000000000000b''" None
              "[\<lparr>oid = 10, name = ''Lion'', species = ''Mammal'', age = Finite 5\<rparr>]"
              "\<lparr>body_name = Value ''Tiger'', body_species = Value ''Mammal'', body_age = Value (Finite 4)\<rparr>"
              11]
  by (simp add: objectId_def hexDigit_def castUpdate_def updateValidators_def
      animalModel_findById_def animalModel_findByIdAndUpdate_def
      animalModel_findByIdAndDelete_def)

text \<open>
  C6. Delete of a well-formed identifier that a stored document has answers 204 without
  a body and leaves the collection without that document; the same delete again answers
  404. (The database is reachable on both calls; identifiers are unique in the
  collection.)
\<close>

theorem delete_then_delete_again:
  fixes castObjectId :: "string \<Rightarrow> 'oid option"
  assumes "castObjectId i = Some k" and "findOne k db = Some d" and "distinct (map oid db)"
  shows
  "delete_animals_id castObjectId None i db = (\<lparr>status = 204, body = No_body\<rparr>, deleteOne k db)
   \<and> findOne k (deleteOne k db) = None
   \<and> delete_animals_id castObjectId None i (deleteOne k db) =
       (\<lparr>status = 404, body = Json_error (Text ''Animal not found'')\<rparr>, deleteOne k db)"
proof -
  have gone: "findOne k (deleteOne k db) = None"
    using assms(3) by (rule findOne_deleteOne)
  have same: "deleteOne k (deleteOne k db) = deleteOne k db"
    using gone by (rule deleteOne_absent)
  show ?thesis
    using assms(1,2) gone
    by (simp add: delete_animals_id_def animalModel_findByIdAndDelete_def
        delete_animals_id_res_def same)
qed

theorem delete_then_delete_again_witness:
  "objectId ''00000000000000000000000a'' = Some 10
   \<and> findOne 10 [\<lparr>oid = 10, name = ''Lion'', species = ''Mammal'', age = Finite 5\<rparr>,
                   \<lparr>oid = 11, name = ''Swan'', species = ''Bird'', age = Finite 2\<rparr>]
       = Some \<lparr>oid = 10, name = ''Lion'', species = ''Mammal'', age = Finite 5\<rparr>
   \<and> distinct (map oid [\<lparr>oid = 10 :: 96 word, name = ''Lion'', species = ''Mammal'', age = Finite 5\<rparr>,
                          \<lparr>oid = 11, name = ''Swan'', species = ''Bird'', age = Finite 2\<rparr>])
   \<and> delete_animals_id objectId None ''00000000000000000000000a''
        [\<lparr>oid = 10, name = ''Lion'', species = ''Mammal'', age = Finite 5\<rparr>,
         \<lparr>oid = 11, name = ''Swan'', species = ''Bird'', age = Finite 2\<rparr>]
       = (\<lparr>status = 204, body = No_body\<rparr>,
          [\<lparr>oid = 11, name = ''Swan'', species = ''Bird'', age = Finite 2\<rparr>])
   \<and> delete_animals_id objectId None ''00000000000000000000000a''
        [\<lparr>oid = 11, name = ''Swan'', species = ''Bird'', age = Finite 2\<rparr>]
       = (\<lparr>status = 404, body = Json_error (Text ''Animal not found'')\<rparr>,
          [\<lparr>oid = 11, name = ''Swan'', species = ''Bird'', age = Finite 2\<rparr>])"
  using delete_then_delete_again
          [of objectId "''00000000000000000000000a''" 10
              "[\<lparr>oid = 10, name = ''Lion'', species = ''Mammal'', age = Finite 5\<rparr>,
                \<lparr>oid = 11, name = ''Swan'', species = ''Bird'', age = Finite 2\<rparr>]"
              "\<lparr>oid = 10, name = ''Lion'', species = ''Mammal'', age = Finite 5\<rparr>"]
  by (simp add: objectId_def hexDigit_def)

text \<open>
  C5, as stated, fails. The integer age 9007199254740993 of a payload is read as the
  double 9007199254740992, so the record created with 201 does not have the payload's
  age. And create answers 201 only when the identifier generated for the document is
  not in use: the store refuses a second document with the identifier of a stored one,
  and create then answers 400.
\<close>

theorem create_does_not_keep_every_integer_age:
  "JSON_number 9007199254740993 = Finite 9007199254740992
   \<and> post_animals None (11 :: 96 word)
        \<lparr>body_name = Value ''Swan'', body_species = Value ''Bird'',
           body_age = Value (JSON_number 9007199254740993)\<rparr> [] =
       (\<lparr>status = 201,
          body = Json_doc \<lparr>oid = 11, name = ''Swan'', species = ''Bird'',
                            age = Finite 9007199254740992\<rparr>\<rparr>,
        [\<lparr>oid = 11, name = ''Swan'', species = ''Bird'', age = Finite 9007199254740992\<rparr>])
   \<and> post_animals None (10 :: 96 word)
        \<lparr>body_name = Value ''Swan'', body_species = Value ''Bird'',
           body_age = Value (JSON_number 2)\<rparr>
        [\<lparr>oid = 10, name = ''Lion'', species = ''Mammal'', age = Finite 5\<rparr>] =
       (\<lparr>status = 400, body = Json_error (Message_of DuplicateKey)\<rparr>,
        [\<lparr>oid = 10, name = ''Lion'', species = ''Mammal'', age = Finite 5\<rparr>])"
proof -
  have two: "JSON_number 2 = Finite 2"
    using JSON_number_safe_integer [of 2] by simp
  show ?thesis
    by (simp add: JSON_number_above_2_53 two post_animals_def animalModel_create_def
        validate_def post_animals_res_def)
qed

text \<open>
  C5, amended. A payload with a non-empty name, a non-empty species and an integer age
  of magnitude at most \<open>2 ^ 53\<close> is created with 201 when the identifier generated for
  it is not in use; the document in the response has the payload's three fields and
  that identifier, whose text is a well-formed identifier; get-by-id with that text then
  answers 200 with the same document. Whatever the body, a 201 of create carries an
  identifier that no stored document had. (The database is reachable on both calls.)
\<close>

theorem create_then_get_by_id:
  assumes "n \<noteq> []" and "s \<noteq> []" and "\<bar>a\<bar> \<le> 2 ^ 53"
    and "newId \<notin> set (map oid db)"
  shows
  "post_animals None newId
     \<lparr>body_name = Value n, body_species = Value s, body_age = Value (JSON_number (of_int a))\<rparr>
     db =
     (\<lparr>status = 201,
        body = Json_doc \<lparr>oid = newId, name = n, species = s, age = Finite (of_int a)\<rparr>\<rparr>,
      db @ [\<lparr>oid = newId, name = n, species = s, age = Finite (of_int a)\<rparr>])
   \<and> objectId (toHexString newId) = Some newId
   \<and> get_animals_id objectId None (toHexString newId)
        (db @ [\<lparr>oid = newId, name = n, species = s, age = Finite (of_int a)\<rparr>]) =
     \<lparr>status = 200,
      body = Json_doc \<lparr>oid = newId, name = n, species = s, age = Finite (of_int a)\<rparr>\<rparr>
   \<and> (status (fst (post_animals fault k b db)) = 201 \<longrightarrow> k \<notin> set (map oid db))"
proof -
  let ?d = "\<lparr>oid = newId, name = n, species = s, age = Finite (of_int a)\<rparr>"
  have age: "JSON_number (of_int a) = Finite (of_int a)"
    using assms(3) by (rule JSON_number_safe_integer)
  have created: "animalModel_create None newId
     \<lparr>body_name = Value n, body_species = Value s, body_age = Value (JSON_number (of_int a))\<rparr>
     db = (Resolved ?d, db @ [?d])"
    using assms(1,2,4) by (simp add: animalModel_create_def validate_def age)
  have found: "findOne newId (db @ [?d]) = Some ?d"
    using assms(4) by (simp add: findOne_append_fresh)
  have wf: "objectId (toHexString newId) = Some newId"
    by (rule objectId_toHexString)
  have fresh: "status (fst (post_animals fault k b db)) = 201 \<longrightarrow> k \<notin> set (map oid db)"
    by (auto simp: post_animals_def animalModel_create_def post_animals_res_def
        split: sum.splits option.splits)
  have "post_animals None newId
     \<lparr>body_name = Value n, body_species = Value s, body_age = Value (JSON_number (of_int a))\<rparr>
     db = (\<lparr>status = 201, body = Json_doc ?d\<rparr>, db @ [?d])"
    using created by (simp add: post_animals_def post_animals_res_def)
  moreover have "get_animals_id objectId None (toHexString newId) (db @ [?d]) =
      \<lparr>status = 200, body = Json_doc ?d\<rparr>"
    using found wf
    by (simp add: get_animals_id_def animalModel_findById_def get_animals_id_res_def)
  ultimately show ?thesis
    using wf fresh by blast
qed

theorem create_then_get_by_id_witness:
  "''Swan'' \<noteq> [] \<and> ''Bird'' \<noteq> [] \<and> \<bar>2 :: int\<bar> \<le> 2 ^ 53
   \<and> (11 :: 96 word) \<notin>
        set (map oid [\<lparr>oid = 10, name = ''Lion'', species = ''Mammal'', age = Finite 5\<rparr>])
   \<and> toHexString 11 = ''00000000000000000000000b''
   \<and> post_animals None (11 :: 96 word)
        \<lparr>body_name = Value ''Swan'', body_species = Value ''Bird'',
           body_age = Value (JSON_number 2)\<rparr>
        [\<lparr>oid = 10, name = ''Lion'', species = ''Mammal'', age = Finite 5\<rparr>] =
       (\<lparr>status = 201,
          body = Json_doc \<lparr>oid = 11, name = ''Swan'', species = ''Bird'', age = Finite 2\<rparr>\<rparr>,
        [\<lparr>oid = 10, name = ''Lion'', species = ''Mammal'', age = Finite 5\<rparr>,
         \<lparr>oid = 11, name = ''Swan'', species = ''Bird'', age = Finite 2\<rparr>])
   \<and> get_animals_id objectId None ''00000000000000000000000b''
        [\<lparr>oid = 10, name = ''Lion'', species = ''Mammal'', age = Finite 5\<rparr>,
         \<lparr>oid = 11, name = ''Swan'', species = ''Bird'', age = Finite 2\<rparr>] =
       \<lparr>status = 200,
        body = Json_doc \<lparr>oid = 11, name = ''Swan'', species = ''Bird'', age = Finite 2\<rparr>\<rparr>"
proof -
  have hex: "toHexString 11 = ''00000000000000000000000b''"
    by (simp add: toHexString_def hexChar_def upt_conv_Cons)
  show ?thesis
    using create_then_get_by_id
            [of "''Swan''" "''Bird''" 2 11
                "[\<lparr>oid = 10, name = ''Lion'', species = ''Mammal'', age = Finite 5\<rparr>]"
                None 11
                "\<lparr>body_name = Value ''Swan'', body_species = Value ''Bird'',
                   body_age = Value (JSON_number 2)\<rparr>"]
    by (simp add: hex)
qed

text \<open>
  C3. A body with all three fields whose age is a number that is not an integer is
  created with 201 and stored; the claim asks for 400 and nothing persisted. The
  schema's type for \<^verbatim>\<open>age\<close> is Number and no validator asks for an integer, while the
  OpenAPI schema of \<^verbatim>\<open>app.js\<close> declares \<^verbatim>\<open>age\<close> an integer.
\<close>

theorem create_accepts_fractional_age:
  "(5 / 2 :: rat) \<notin> \<int>
   \<and> JSON_number (5 / 2) = Finite (5 / 2)
   \<and> post_animals None (10 :: 96 word)
        \<lparr>body_name = Value ''Lion'', body_species = Value ''Mammal'',
           body_age = Value (JSON_number (5 / 2))\<rparr>
        [] =
       (\<lparr>status = 201,
          body = Json_doc \<lparr>oid = 10, name = ''Lion'', species = ''Mammal'',
                            age = Finite (5 / 2)\<rparr>\<rparr>,
        [\<lparr>oid = 10, name = ''Lion'', species = ''Mammal'', age = Finite (5 / 2)\<rparr>])"
proof -
  have "(5 / 2 :: rat) \<notin> \<int>"
  proof
    assume "(5 / 2 :: rat) \<in> \<int>"
    then obtain z :: int where "(5 / 2 :: rat) = of_int z" by (auto elim: Ints_cases)
    then have "(5 :: rat) = of_int (2 * z)" by simp
    then have "(5 :: int) = 2 * z" by (metis of_int_eq_iff of_int_numeral)
    then show False by presburger
  qed
  then show ?thesis
    by (simp add: JSON_number_halves post_animals_def animalModel_create_def validate_def
        post_animals_res_def)
qed

text \<open>
  C1. For a stored document and the body \<^verbatim>\<open>{"name": "Tiger"}\<close>, which create refuses for
  its missing \<^verbatim>\<open>species\<close> and \<^verbatim>\<open>age\<close>, update answers 200 and the document keeps its
  species and its age; the claim asks for the validation of create. The update is the
  \<^verbatim>\<open>$set\<close> of the keys the body has, and only their validators run.
\<close>

theorem update_accepts_partial_body:
  "validate (10 :: 96 word)
     \<lparr>body_name = Value ''Tiger'', body_species = Missing, body_age = Missing\<rparr> =
     Inl (ValidationError [(''species'', Required), (''age'', Required)])
   \<and> status (fst (post_animals None (11 :: 96 word)
        \<lparr>body_name = Value ''Tiger'', body_species = Missing, body_age = Missing\<rparr>
        [\<lparr>oid = 10, name = ''Lion'', species = ''Mammal'', age = Finite 5\<rparr>])) = 400
   \<and> put_animals_id objectId None ''00000000000000000000000a''
        \<lparr>body_name = Value ''Tiger'', body_species = Missing, body_age = Missing\<rparr>
        [\<lparr>oid = 10, name = ''Lion'', species = ''Mammal'', age = Finite 5\<rparr>] =
       (\<lparr>status = 200,
          body = Json_doc \<lparr>oid = 10, name = ''Tiger'', species = ''Mammal'', age = Finite 5\<rparr>\<rparr>,
        [\<lparr>oid = 10, name = ''Tiger'', species = ''Mammal'', age = Finite 5\<rparr>])"
  by (simp add: validate_def post_animals_def animalModel_create_def post_animals_res_def
      put_animals_id_def animalModel_findByIdAndUpdate_def put_animals_id_res_def
      objectId_def hexDigit_def castUpdate_def updateValidators_def applyUpdate_def)

text \<open>
  C10, as stated, fails: a body that omits required fields is not always answered with
  200. For a stored document, the bodies \<^verbatim>\<open>{"name": ""}\<close> and \<^verbatim>\<open>{"name": null}\<close>, which
  omit \<^verbatim>\<open>species\<close> and \<^verbatim>\<open>age\<close>, are answered with 400: the field they have fails its
  validator.
\<close>

theorem update_refuses_invalid_present_field:
  "put_animals_id objectId None ''00000000000000000000000a''
     \<lparr>body_name = Value [], body_species = Missing, body_age = Missing\<rparr>
     [\<lparr>oid = 10, name = ''Lion'', species = ''Mammal'', age = Finite 5\<rparr>] =
     (\<lparr>status = 400,
        body = Json_error (Message_of (ValidationError [(''name'', Required)]))\<rparr>,
      [\<lparr>oid = 10, name = ''Lion'', species = ''Mammal'', age = Finite 5\<rparr>])
   \<and> put_animals_id objectId None ''00000000000000000000000a''
     \<lparr>body_name = Null, body_species = Missing, body_age = Missing\<rparr>
     [\<lparr>oid = 10, name = ''Lion'', species = ''Mammal'', age = Finite 5\<rparr>] =
     (\<lparr>status = 400,
        body = Json_error (Message_of (ValidationError [(''name'', Required)]))\<rparr>,
      [\<lparr>oid = 10, name = ''Lion'', species = ''Mammal'', age = Finite 5\<rparr>])"
  by (simp add: put_animals_id_def animalModel_findByIdAndUpdate_def put_animals_id_res_def
      objectId_def hexDigit_def castUpdate_def updateValidators_def)

text \<open>
  C10, amended. For a stored document with a well-formed identifier and a body that is
  a JSON object with no keys but \<^verbatim>\<open>name\<close>, \<^verbatim>\<open>species\<close> and \<^verbatim>\<open>age\<close>: only the fields
  present in the body are validated and changed. When every field present passes (a
  non-empty string for \<^verbatim>\<open>name\<close> and \<^verbatim>\<open>species\<close>, a number for \<^verbatim>\<open>age\<close>), update answers
  200, the fields present take the body's values and the omitted fields keep theirs;
  the empty body is answered with 200 and the document unchanged. When a field present
  fails (null, a value its type cannot cast, an empty string), update answers 400 with
  the error's message and changes nothing. No validation error is raised for a path the
  body omits.
\<close>

theorem update_validates_and_sets_present_fields:
  fixes castObjectId :: "string \<Rightarrow> 'oid option"
  shows
  "(body_name b = Missing \<longrightarrow> ''name'' \<notin> fst ` set (updateValidators b))
   \<and> (body_species b = Missing \<longrightarrow> ''species'' \<notin> fst ` set (updateValidators b))
   \<and> (body_age b = Missing \<longrightarrow> ''age'' \<notin> fst ` set (updateValidators b))
   \<and> (castObjectId i = Some k \<and> findOne k db = Some d
        \<and> (body_name b = Missing \<or> (\<exists>n. body_name b = Value n \<and> n \<noteq> []))
        \<and> (body_species b = Missing \<or> (\<exists>s. body_species b = Value s \<and> s \<noteq> []))
        \<and> (body_age b = Missing \<or> (\<exists>a. body_age b = Value a))
       \<longrightarrow>
        (\<exists>d'. put_animals_id castObjectId None i b db =
                (\<lparr>status = 200, body = Json_doc d'\<rparr>, replaceOne k d' db)
           \<and> findOne k (replaceOne k d' db) = Some d'
           \<and> oid d' = oid d
           \<and> (body_name b = Missing \<longrightarrow> name d' = name d)
           \<and> (body_species b = Missing \<longrightarrow> species d' = species d)
           \<and> (body_age b = Missing \<longrightarrow> age d' = age d)
           \<and> (\<forall>n. body_name b = Value n \<longrightarrow> name d' = n)
           \<and> (\<forall>s. body_species b = Value s \<longrightarrow> species d' = s)
           \<and> (\<forall>a. body_age b = Value a \<longrightarrow> age d' = a)))
   \<and> (castObjectId i = Some k
        \<and> (body_name b = Null \<or> body_name b = Uncastable \<or> body_name b = Value []
             \<or> body_species b = Null \<or> body_species b = Uncastable
             \<or> body_species b = Value []
             \<or> body_age b = Null \<or> body_age b = Uncastable)
       \<longrightarrow>
        (\<exists>e. put_animals_id castObjectId fault i b db =
                (\<lparr>status = 400, body = Json_error (Message_of e)\<rparr>, db)))
   \<and> (castObjectId i = Some k \<and> findOne k db = Some d \<longrightarrow>
        put_animals_id castObjectId None i
          \<lparr>body_name = Missing, body_species = Missing, body_age = Missing\<rparr> db =
          (\<lparr>status = 200, body = Json_doc d\<rparr>, db))"
proof -
  have no_error_for_omitted:
    "(body_name b = Missing \<longrightarrow> ''name'' \<notin> fst ` set (updateValidators b))
   \<and> (body_species b = Missing \<longrightarrow> ''species'' \<notin> fst ` set (updateValidators b))
   \<and> (body_age b = Missing \<longrightarrow> ''age'' \<notin> fst ` set (updateValidators b))"
    by (auto simp: updateValidators_def
        dest!: updateValidators_String_path updateValidators_Number_path)
  have patch: "\<exists>d'. put_animals_id castObjectId None i b db =
                (\<lparr>status = 200, body = Json_doc d'\<rparr>, replaceOne k d' db)
           \<and> findOne k (replaceOne k d' db) = Some d'
           \<and> oid d' = oid d
           \<and> (body_name b = Missing \<longrightarrow> name d' = name d)
           \<and> (body_species b = Missing \<longrightarrow> species d' = species d)
           \<and> (body_age b = Missing \<longrightarrow> age d' = age d)
           \<and> (\<forall>n. body_name b = Value n \<longrightarrow> name d' = n)
           \<and> (\<forall>s. body_species b = Value s \<longrightarrow> species d' = s)
           \<and> (\<forall>a. body_age b = Value a \<longrightarrow> age d' = a)"
    if id: "castObjectId i = Some k" and found: "findOne k db = Some d"
      and n: "body_name b = Missing \<or> (\<exists>n. body_name b = Value n \<and> n \<noteq> [])"
      and s: "body_species b = Missing \<or> (\<exists>s. body_species b = Value s \<and> s \<noteq> [])"
      and a: "body_age b = Missing \<or> (\<exists>a. body_age b = Value a)"
  proof -
    have casts: "castUpdate b = []"
      using n s a unfolding castUpdate_Nil_iff by auto
    have valid: "updateValidators b = []"
      using n s a by (auto simp: updateValidators_def)
    have call: "animalModel_findByIdAndUpdate castObjectId None i b db =
        (Resolved (Some (applyUpdate b d)), replaceOne k (applyUpdate b d) db)"
      using id found casts valid by (rule findByIdAndUpdate_found)
    have k: "oid d = k" using found by (rule findOne_oid)
    have stored: "findOne k (replaceOne k (applyUpdate b d) db) = Some (applyUpdate b d)"
      using found k by (simp add: findOne_replaceOne oid_applyUpdate)
    have fields: "oid (applyUpdate b d) = oid d
           \<and> (body_name b = Missing \<longrightarrow> name (applyUpdate b d) = name d)
           \<and> (body_species b = Missing \<longrightarrow> species (applyUpdate b d) = species d)
           \<and> (body_age b = Missing \<longrightarrow> age (applyUpdate b d) = age d)
           \<and> (\<forall>n. body_name b = Value n \<longrightarrow> name (applyUpdate b d) = n)
           \<and> (\<forall>s. body_species b = Value s \<longrightarrow> species (applyUpdate b d) = s)
           \<and> (\<forall>a. body_age b = Value a \<longrightarrow> age (applyUpdate b d) = a)"
      by (simp add: applyUpdate_def)
    have "put_animals_id castObjectId None i b db =
        (\<lparr>status = 200, body = Json_doc (applyUpdate b d)\<rparr>, replaceOne k (applyUpdate b d) db)"
      using call by (simp add: put_animals_id_def put_animals_id_res_def)
    with stored fields show ?thesis by blast
  qed
  have refused: "\<exists>e. put_animals_id castObjectId fault i b db =
                (\<lparr>status = 400, body = Json_error (Message_of e)\<rparr>, db)"
    if id: "castObjectId i = Some k"
      and bad: "body_name b = Null \<or> body_name b = Uncastable \<or> body_name b = Value []
             \<or> body_species b = Null \<or> body_species b = Uncastable
             \<or> body_species b = Value []
             \<or> body_age b = Null \<or> body_age b = Uncastable"
  proof -
    have "\<not> (castUpdate b = [] \<and> updateValidators b = [])"
      using bad by (auto simp: castUpdate_def updateValidators_def)
    then obtain e where
      "animalModel_findByIdAndUpdate castObjectId fault i b db = (Rejected e, db)"
      using findByIdAndUpdate_refused [of castObjectId i k b fault db] id by blast
    then have "put_animals_id castObjectId fault i b db =
        (\<lparr>status = 400, body = Json_error (Message_of e)\<rparr>, db)"
      by (simp add: put_animals_id_def put_animals_id_res_def)
    then show ?thesis by blast
  qed
  have empty_body: "put_animals_id castObjectId None i
          \<lparr>body_name = Missing, body_species = Missing, body_age = Missing\<rparr> db =
          (\<lparr>status = 200, body = Json_doc d\<rparr>, db)"
    if id: "castObjectId i = Some k" and found: "findOne k db = Some d"
  proof -
    have same: "applyUpdate \<lparr>body_name = Missing, body_species = Missing, body_age = Missing\<rparr> d = d"
      by (simp add: applyUpdate_def)
    show ?thesis
      using id found
      by (simp add: put_animals_id_def animalModel_findByIdAndUpdate_def put_animals_id_res_def
          castUpdate_def updateValidators_def same replaceOne_same)
  qed
  from no_error_for_omitted patch refused empty_body show ?thesis by blast
qed

theorem update_validates_and_sets_present_fields_witness:
  "objectId ''00000000000000000000000a'' = Some 10
   \<and> findOne 10 [\<lparr>oid = 10 :: 96 word, name = ''Lion'', species = ''Mammal'', age = Finite 5\<rparr>] =
       Some \<lparr>oid = 10, name = ''Lion'', species = ''Mammal'', age = Finite 5\<rparr>
   \<and> body_species \<lparr>body_name = Value ''Tiger'', body_species = Missing, body_age = Missing\<rparr>
       = Missing
   \<and> ''Tiger'' \<noteq> []
   \<and> ''species'' \<notin> fst ` set (updateValidators
        \<lparr>body_name = Value ''Tiger'', body_species = Missing, body_age = Missing\<rparr>)
   \<and> put_animals_id objectId None ''00000000000000000000000a''
        \<lparr>body_name = Value ''Tiger'', body_species = Missing, body_age = Missing\<rparr>
        [\<lparr>oid = 10, name = ''Lion'', species = ''Mammal'', age = Finite 5\<rparr>] =
       (\<lparr>status = 200,
          body = Json_doc \<lparr>oid = 10, name = ''Tiger'', species = ''Mammal'', age = Finite 5\<rparr>\<rparr>,
        [\<lparr>oid = 10, name = ''Tiger'', species = ''Mammal'', age = Finite 5\<rparr>])
   \<and> put_animals_id objectId None ''00000000000000000000000a''
        \<lparr>body_name = Missing, body_species = Missing, body_age = Missing\<rparr>
        [\<lparr>oid = 10, name = ''Lion'', species = ''Mammal'', age = Finite 5\<rparr>] =
       (\<lparr>status = 200,
          body = Json_doc \<lparr>oid = 10, name = ''Lion'', species = ''Mammal'', age = Finite 5\<rparr>\<rparr>,
        [\<lparr>oid = 10, name = ''Lion'', species = ''Mammal'', age = Finite 5\<rparr>])
   \<and> body_age \<lparr>body_name = Missing, body_species = Missing, body_age = Uncastable\<rparr>
       = Uncastable
   \<and> put_animals_id objectId None ''00000000000000000000000a''
        \<lparr>body_name = Missing, body_species = Missing, body_age = Uncastable\<rparr>
        [\<lparr>oid = 10, name = ''Lion'', species = ''Mammal'', age = Finite 5\<rparr>] =
       (\<lparr>status = 400, body = Json_error (Message_of (CastError ''age''))\<rparr>,
        [\<lparr>oid = 10, name = ''Lion'', species = ''Mammal'', age = Finite 5\<rparr>])"
  using update_validates_and_sets_present_fields
          [of "\<lparr>body_name = Value ''Tiger'', body_species = Missing, body_age = Missing\<rparr>"
              objectId "''00000000000000000000000a''" 10
              "[\<lparr>oid = 10, name = ''Lion'', species = ''Mammal'', age = Finite 5\<rparr>]"
              "\<lparr>oid = 10, name = ''Lion'', species = ''Mammal'', age = Finite 5\<rparr>" None]
        update_validates_and_sets_present_fields
          [of "\<lparr>body_name = Missing, body_species = Missing, body_age = Uncastable\<rparr>"
              objectId "''00000000000000000000000a''" 10
              "[\<lparr>oid = 10, name = ''Lion'', species = ''Mammal'', age = Finite 5\<rparr>]"
              "\<lparr>oid = 10, name = ''Lion'', species = ''Mammal'', age = Finite 5\<rparr>" None]
  by (simp add: objectId_def hexDigit_def updateValidators_def put_animals_id_def
      animalModel_findByIdAndUpdate_def put_animals_id_res_def castUpdate_def applyUpdate_def)

text \<open>
  C4, as stated, fails: when the connection attempt fails, the port has been opened and
  the server has logged that it listens before the failure is handled. \<^verbatim>\<open>app.listen\<close>
  is called right after the call of \<^verbatim>\<open>conectDB\<close>, which is not awaited.
\<close>

theorem listen_precedes_connection_failure:
  "boot (Failed ''connect ECONNREFUSED'') =
     [Connect, Listen 3000, Console_log [''Server listening on port 3000''],
      Console_error [''Error connecting to MongoDB:'', ''connect ECONNREFUSED''], Exit 1]"
  by (simp add: boot_def conectDB_call_def conectDB_resume_def listen_callback_def
      PORT_def hexChar_def)

text \<open>
  C4, amended. If establishing the connection fails at start-up, the process logs
  \<^verbatim>\<open>Error connecting to MongoDB:\<close> with the error's message and exits with code 1, and
  this is the last thing it does. By then the port has been opened and the listening
  message logged: the port is opened once the connection attempt has been started,
  whatever its outcome will be.
\<close>

theorem connection_failure_logs_and_exits:
  "boot (Failed m) =
     [Connect, Listen 3000, Console_log [''Server listening on port 3000''],
      Console_error [''Error connecting to MongoDB:'', m], Exit 1]
   \<and> boot Connected =
     [Connect, Listen 3000, Console_log [''Server listening on port 3000''],
      Console_log [''Connected to MongoDB'']]"
  by (simp add: boot_def conectDB_call_def conectDB_resume_def listen_callback_def
      PORT_def hexChar_def)

end
